theory Spec2Isabelle
  imports Main
begin

section \<open>Data model of mimalloc-glue.c\<close>

text \<open>
  A \<open>void*\<close> (object pointer, library handle or function pointer) is an address; the null
  pointer is address 0. The glue code never does arithmetic on a pointer or on a
  \<open>size_t\<close>: it only compares pointers for equality and passes values on.
\<close>

type_synonym addr = nat

abbreviation NULL :: addr where
  "NULL \<equiv> 0"

text \<open>The struct \<open>malloc_lut\<close>: one function pointer per overridden symbol, in the order
  of the source. A C field \<open>f\<close> is the record field \<open>fn_f\<close> (the plain names are those of
  the wrappers below).\<close>

record malloc_lut =
  fn_malloc :: addr
  fn_calloc :: addr
  fn_realloc :: addr
  fn_free :: addr
  fn_strdup :: addr
  fn_strndup :: addr
  fn_realpath :: addr
  fn_reallocf :: addr
  fn_malloc_size :: addr
  fn_malloc_usable_size :: addr
  fn_malloc_good_size :: addr
  fn_cfree :: addr
  fn_valloc :: addr
  fn_pvalloc :: addr
  fn_reallocarray :: addr
  fn_reallocarr :: addr
  fn_memalign :: addr
  fn_aligned_alloc :: addr
  fn_posix_memalign :: addr
  fn__posix_memalign :: addr

text \<open>The static initialiser of the global \<open>lut\<close>: twenty times \<open>NULL\<close>.\<close>

definition lut_initial :: malloc_lut where
  "lut_initial = \<lparr>
     fn_malloc = NULL,
     fn_calloc = NULL,
     fn_realloc = NULL,
     fn_free = NULL,
     fn_strdup = NULL,
     fn_strndup = NULL,
     fn_realpath = NULL,
     fn_reallocf = NULL,
     fn_malloc_size = NULL,
     fn_malloc_usable_size = NULL,
     fn_malloc_good_size = NULL,
     fn_cfree = NULL,
     fn_valloc = NULL,
     fn_pvalloc = NULL,
     fn_reallocarray = NULL,
     fn_reallocarr = NULL,
     fn_memalign = NULL,
     fn_aligned_alloc = NULL,
     fn_posix_memalign = NULL,
     fn__posix_memalign = NULL \<rparr>"

text \<open>The twenty fields, as an enumeration, with the projection and the assignment of a
  field. \<open>entry_name\<close> is the C identifier of the symbol.\<close>

datatype entry =
    Malloc | Calloc | Realloc | Free | Strdup | Strndup | Realpath
  | Reallocf | Malloc_size | Malloc_usable_size | Malloc_good_size | Cfree
  | Valloc | Pvalloc | Reallocarray | Reallocarr | Memalign | Aligned_alloc
  | Posix_memalign | Underscore_posix_memalign

fun entry_name :: "entry \<Rightarrow> string" where
  "entry_name Malloc = ''malloc''"
| "entry_name Calloc = ''calloc''"
| "entry_name Realloc = ''realloc''"
| "entry_name Free = ''free''"
| "entry_name Strdup = ''strdup''"
| "entry_name Strndup = ''strndup''"
| "entry_name Realpath = ''realpath''"
| "entry_name Reallocf = ''reallocf''"
| "entry_name Malloc_size = ''malloc_size''"
| "entry_name Malloc_usable_size = ''malloc_usable_size''"
| "entry_name Malloc_good_size = ''malloc_good_size''"
| "entry_name Cfree = ''cfree''"
| "entry_name Valloc = ''valloc''"
| "entry_name Pvalloc = ''pvalloc''"
| "entry_name Reallocarray = ''reallocarray''"
| "entry_name Reallocarr = ''reallocarr''"
| "entry_name Memalign = ''memalign''"
| "entry_name Aligned_alloc = ''aligned_alloc''"
| "entry_name Posix_memalign = ''posix_memalign''"
| "entry_name Underscore_posix_memalign = ''_posix_memalign''"

fun lut_get :: "entry \<Rightarrow> malloc_lut \<Rightarrow> addr" where
  "lut_get Malloc l = fn_malloc l"
| "lut_get Calloc l = fn_calloc l"
| "lut_get Realloc l = fn_realloc l"
| "lut_get Free l = fn_free l"
| "lut_get Strdup l = fn_strdup l"
| "lut_get Strndup l = fn_strndup l"
| "lut_get Realpath l = fn_realpath l"
| "lut_get Reallocf l = fn_reallocf l"
| "lut_get Malloc_size l = fn_malloc_size l"
| "lut_get Malloc_usable_size l = fn_malloc_usable_size l"
| "lut_get Malloc_good_size l = fn_malloc_good_size l"
| "lut_get Cfree l = fn_cfree l"
| "lut_get Valloc l = fn_valloc l"
| "lut_get Pvalloc l = fn_pvalloc l"
| "lut_get Reallocarray l = fn_reallocarray l"
| "lut_get Reallocarr l = fn_reallocarr l"
| "lut_get Memalign l = fn_memalign l"
| "lut_get Aligned_alloc l = fn_aligned_alloc l"
| "lut_get Posix_memalign l = fn_posix_memalign l"
| "lut_get Underscore_posix_memalign l = fn__posix_memalign l"

fun lut_set :: "entry \<Rightarrow> addr \<Rightarrow> malloc_lut \<Rightarrow> malloc_lut" where
  "lut_set Malloc a l = l\<lparr>fn_malloc := a\<rparr>"
| "lut_set Calloc a l = l\<lparr>fn_calloc := a\<rparr>"
| "lut_set Realloc a l = l\<lparr>fn_realloc := a\<rparr>"
| "lut_set Free a l = l\<lparr>fn_free := a\<rparr>"
| "lut_set Strdup a l = l\<lparr>fn_strdup := a\<rparr>"
| "lut_set Strndup a l = l\<lparr>fn_strndup := a\<rparr>"
| "lut_set Realpath a l = l\<lparr>fn_realpath := a\<rparr>"
| "lut_set Reallocf a l = l\<lparr>fn_reallocf := a\<rparr>"
| "lut_set Malloc_size a l = l\<lparr>fn_malloc_size := a\<rparr>"
| "lut_set Malloc_usable_size a l = l\<lparr>fn_malloc_usable_size := a\<rparr>"
| "lut_set Malloc_good_size a l = l\<lparr>fn_malloc_good_size := a\<rparr>"
| "lut_set Cfree a l = l\<lparr>fn_cfree := a\<rparr>"
| "lut_set Valloc a l = l\<lparr>fn_valloc := a\<rparr>"
| "lut_set Pvalloc a l = l\<lparr>fn_pvalloc := a\<rparr>"
| "lut_set Reallocarray a l = l\<lparr>fn_reallocarray := a\<rparr>"
| "lut_set Reallocarr a l = l\<lparr>fn_reallocarr := a\<rparr>"
| "lut_set Memalign a l = l\<lparr>fn_memalign := a\<rparr>"
| "lut_set Aligned_alloc a l = l\<lparr>fn_aligned_alloc := a\<rparr>"
| "lut_set Posix_memalign a l = l\<lparr>fn_posix_memalign := a\<rparr>"
| "lut_set Underscore_posix_memalign a l = l\<lparr>fn__posix_memalign := a\<rparr>"

section \<open>The environment: the dynamic loader and the code behind a pointer\<close>

text \<open>
  \<open>dlopen\<close>, \<open>dlsym\<close> and the functions the table points to are not part of the
  repository. They are parameters of the model: each reads and changes a state \<open>'w\<close> of
  the rest of the process (loaded libraries, the heap), about which nothing is assumed, so
  the same question may get different answers at different times.
  The second argument of \<open>dlsym\<close> is a handle returned by \<open>dlopen\<close> or the
  pseudo-handle \<open>RTLD_NEXT\<close>.

  The table is a \<open>static\<close> variable of the glue code: the environment cannot name it, and
  its answers do not depend on it. What the loader or a callee does inside one of its calls
  (allocating through the wrappers, for instance) is part of its step on \<open>'w\<close>.
\<close>

datatype dl_flag = RTLD_NOW | RTLD_NOLOAD

datatype dl_handle = RTLD_NEXT | Lib addr

text \<open>Values passed to and returned by the allocator functions.\<close>

datatype val = Ptr addr | Size nat | Int int | Void

record 'w env =
  sys_dlopen :: "string \<Rightarrow> dl_flag list \<Rightarrow> 'w \<Rightarrow> addr \<times> 'w"
  sys_dlsym :: "dl_handle \<Rightarrow> string \<Rightarrow> 'w \<Rightarrow> addr \<times> 'w"
  sys_call :: "addr \<Rightarrow> val list \<Rightarrow> 'w \<Rightarrow> val \<times> 'w"

text \<open>What the process does that can be seen from outside the glue code, in order: the
  calls to the loader with their results, the writes to the table, the lines written to
  \<open>stderr\<close>, the indirect calls, and \<open>abort()\<close>.\<close>

datatype event =
    EvDlopen string "dl_flag list" addr
  | EvDlsym dl_handle string addr
  | EvStore entry addr
  | EvFprintf string
  | EvCall addr "val list"
  | EvAbort

record 'w pstate =
  world :: 'w
  lut :: malloc_lut
  trace :: "event list"

text \<open>A C function either returns a value or ends the process in \<open>abort()\<close>.\<close>

datatype 'a result = Ret 'a | Aborted

type_synonym ('w, 'a) prog = "'w pstate \<Rightarrow> 'a result \<times> 'w pstate"

definition return :: "'a \<Rightarrow> ('w, 'a) prog" where
  "return x s = (Ret x, s)"

definition bind :: "('w, 'a) prog \<Rightarrow> ('a \<Rightarrow> ('w, 'b) prog) \<Rightarrow> ('w, 'b) prog" where
  "bind m f s = (case m s of (Ret x, s') \<Rightarrow> f x s' | (Aborted, s') \<Rightarrow> (Aborted, s'))"

definition emit :: "event \<Rightarrow> 'w pstate \<Rightarrow> 'w pstate" where
  "emit e s = s\<lparr>trace := trace s @ [e]\<rparr>"

definition dlopen :: "'w env \<Rightarrow> string \<Rightarrow> dl_flag list \<Rightarrow> ('w, addr) prog" where
  "dlopen env filename flags s =
     (let (h, w') = sys_dlopen env filename flags (world s)
      in (Ret h, emit (EvDlopen filename flags h) (s\<lparr>world := w'\<rparr>)))"

definition dlsym :: "'w env \<Rightarrow> dl_handle \<Rightarrow> string \<Rightarrow> ('w, addr) prog" where
  "dlsym env handle symbol s =
     (let (a, w') = sys_dlsym env handle symbol (world s)
      in (Ret a, emit (EvDlsym handle symbol a) (s\<lparr>world := w'\<rparr>)))"

definition fprintf_stderr :: "string \<Rightarrow> ('w, unit) prog" where
  "fprintf_stderr msg s = (Ret (), emit (EvFprintf msg) s)"

definition abort :: "('w, 'a) prog" where
  "abort s = (Aborted, emit EvAbort s)"

text \<open>The assignment \<open>lut.f = a\<close>.\<close>

definition store :: "entry \<Rightarrow> addr \<Rightarrow> ('w, unit) prog" where
  "store e a s = (Ret (), emit (EvStore e a) (s\<lparr>lut := lut_set e a (lut s)\<rparr>))"

text \<open>The read \<open>lut.f\<close>.\<close>

definition load :: "entry \<Rightarrow> ('w, addr) prog" where
  "load e s = (Ret (lut_get e (lut s)), s)"

text \<open>The indirect call \<open>p(args)\<close>.\<close>

definition call_ptr :: "'w env \<Rightarrow> addr \<Rightarrow> val list \<Rightarrow> ('w, val) prog" where
  "call_ptr env p args s =
     (let (v, w') = sys_call env p args (world s)
      in (Ret v, (emit (EvCall p args) s)\<lparr>world := w'\<rparr>))"

section \<open>resolve_func and check_defined\<close>

definition resolve_func :: "'w env \<Rightarrow> string \<Rightarrow> ('w, addr) prog" where
  "resolve_func env symbol =
     bind (dlopen env ''libc.so.6'' [RTLD_NOW, RTLD_NOLOAD]) (\<lambda>libc_so.
     bind (if libc_so = NULL
           then bind (fprintf_stderr ''libc.so.6 not loaded\<newline>'') (\<lambda>_. abort)
           else return ()) (\<lambda>_.
     bind (dlopen env ''libmimalloc.so'' [RTLD_NOW]) (\<lambda>libmimalloc_so.
     bind (if libmimalloc_so = NULL
           then bind (fprintf_stderr ''Failed to load libmimalloc.so\<newline>'') (\<lambda>_. abort)
           else return ()) (\<lambda>_.
     bind (dlsym env (Lib libc_so) symbol) (\<lambda>libc_sym.
     bind (dlsym env (Lib libmimalloc_so) symbol) (\<lambda>libmimalloc_sym.
     bind (dlsym env RTLD_NEXT symbol) (\<lambda>next_sym.
     if next_sym = libc_sym \<or> next_sym = libmimalloc_sym
     then return libmimalloc_sym
     else return next_sym)))))))"

definition check_defined :: "addr \<Rightarrow> string \<Rightarrow> ('w, unit) prog" where
  "check_defined symbol name =
     (if symbol = NULL
      then bind (fprintf_stderr (name @ ''() is not defined\<newline>'')) (\<lambda>_. abort)
      else return ())"

section \<open>init\<close>

text \<open>A block of statements, run in order.\<close>

fun block :: "('w, unit) prog list \<Rightarrow> ('w, unit) prog" where
  "block [] = return ()"
| "block (p # ps) = bind p (\<lambda>_. block ps)"

text \<open>The constructor \<open>init\<close>, statement by statement: twenty assignments of the
  \<open>RTLD_NEXT\<close> address, twenty calls of \<open>resolve_func\<close> into local variables, twenty
  assignments of the locals.\<close>

definition init :: "'w env \<Rightarrow> ('w, unit) prog" where
  "init env =
     bind (block [
       bind (dlsym env RTLD_NEXT ''malloc'') (\<lambda>p. store Malloc p),
       bind (dlsym env RTLD_NEXT ''calloc'') (\<lambda>p. store Calloc p),
       bind (dlsym env RTLD_NEXT ''realloc'') (\<lambda>p. store Realloc p),
       bind (dlsym env RTLD_NEXT ''free'') (\<lambda>p. store Free p),
       bind (dlsym env RTLD_NEXT ''strdup'') (\<lambda>p. store Strdup p),
       bind (dlsym env RTLD_NEXT ''strndup'') (\<lambda>p. store Strndup p),
       bind (dlsym env RTLD_NEXT ''realpath'') (\<lambda>p. store Realpath p),
       bind (dlsym env RTLD_NEXT ''reallocf'') (\<lambda>p. store Reallocf p),
       bind (dlsym env RTLD_NEXT ''malloc_size'') (\<lambda>p. store Malloc_size p),
       bind (dlsym env RTLD_NEXT ''malloc_usable_size'') (\<lambda>p. store Malloc_usable_size p),
       bind (dlsym env RTLD_NEXT ''malloc_good_size'') (\<lambda>p. store Malloc_good_size p),
       bind (dlsym env RTLD_NEXT ''cfree'') (\<lambda>p. store Cfree p),
       bind (dlsym env RTLD_NEXT ''valloc'') (\<lambda>p. store Valloc p),
       bind (dlsym env RTLD_NEXT ''pvalloc'') (\<lambda>p. store Pvalloc p),
       bind (dlsym env RTLD_NEXT ''reallocarray'') (\<lambda>p. store Reallocarray p),
       bind (dlsym env RTLD_NEXT ''reallocarr'') (\<lambda>p. store Reallocarr p),
       bind (dlsym env RTLD_NEXT ''memalign'') (\<lambda>p. store Memalign p),
       bind (dlsym env RTLD_NEXT ''aligned_alloc'') (\<lambda>p. store Aligned_alloc p),
       bind (dlsym env RTLD_NEXT ''posix_memalign'') (\<lambda>p. store Posix_memalign p),
       bind (dlsym env RTLD_NEXT ''_posix_memalign'') (\<lambda>p. store Underscore_posix_memalign p)
     ]) (\<lambda>_.
     bind (resolve_func env ''malloc'') (\<lambda>malloc.
     bind (resolve_func env ''calloc'') (\<lambda>calloc.
     bind (resolve_func env ''realloc'') (\<lambda>realloc.
     bind (resolve_func env ''free'') (\<lambda>free.
     bind (resolve_func env ''strdup'') (\<lambda>strdup.
     bind (resolve_func env ''strndup'') (\<lambda>strndup.
     bind (resolve_func env ''realpath'') (\<lambda>realpath.
     bind (resolve_func env ''reallocf'') (\<lambda>reallocf.
     bind (resolve_func env ''malloc_size'') (\<lambda>malloc_size.
     bind (resolve_func env ''malloc_usable_size'') (\<lambda>malloc_usable_size.
     bind (resolve_func env ''malloc_good_size'') (\<lambda>malloc_good_size.
     bind (resolve_func env ''cfree'') (\<lambda>cfree.
     bind (resolve_func env ''valloc'') (\<lambda>valloc.
     bind (resolve_func env ''pvalloc'') (\<lambda>pvalloc.
     bind (resolve_func env ''reallocarray'') (\<lambda>reallocarray.
     bind (resolve_func env ''reallocarr'') (\<lambda>reallocarr.
     bind (resolve_func env ''memalign'') (\<lambda>memalign.
     bind (resolve_func env ''aligned_alloc'') (\<lambda>aligned_alloc.
     bind (resolve_func env ''posix_memalign'') (\<lambda>posix_memalign.
     bind (resolve_func env ''_posix_memalign'') (\<lambda>underscore_posix_memalign.
     block [
       store Malloc malloc,
       store Calloc calloc,
       store Realloc realloc,
       store Free free,
       store Strdup strdup,
       store Strndup strndup,
       store Realpath realpath,
       store Reallocf reallocf,
       store Malloc_size malloc_size,
       store Malloc_usable_size malloc_usable_size,
       store Malloc_good_size malloc_good_size,
       store Cfree cfree,
       store Valloc valloc,
       store Pvalloc pvalloc,
       store Reallocarray reallocarray,
       store Reallocarr reallocarr,
       store Memalign memalign,
       store Aligned_alloc aligned_alloc,
       store Posix_memalign posix_memalign,
       store Underscore_posix_memalign underscore_posix_memalign
     ])))))))))))))))))))))"

section \<open>The wrappers\<close>

text \<open>Each exported function checks its table entry and calls through it with its own
  arguments. \<open>free\<close> and \<open>cfree\<close> return nothing.\<close>

definition malloc :: "'w env \<Rightarrow> nat \<Rightarrow> ('w, val) prog" where
  "malloc env size' =
     bind (load Malloc) (\<lambda>f. bind (check_defined f ''malloc'') (\<lambda>_.
     bind (load Malloc) (\<lambda>f. call_ptr env f [Size size'])))"

definition calloc :: "'w env \<Rightarrow> nat \<Rightarrow> nat \<Rightarrow> ('w, val) prog" where
  "calloc env n size' =
     bind (load Calloc) (\<lambda>f. bind (check_defined f ''calloc'') (\<lambda>_.
     bind (load Calloc) (\<lambda>f. call_ptr env f [Size n, Size size'])))"

definition realloc :: "'w env \<Rightarrow> addr \<Rightarrow> nat \<Rightarrow> ('w, val) prog" where
  "realloc env ptr size' =
     bind (load Realloc) (\<lambda>f. bind (check_defined f ''realloc'') (\<lambda>_.
     bind (load Realloc) (\<lambda>f. call_ptr env f [Ptr ptr, Size size'])))"

definition free :: "'w env \<Rightarrow> addr \<Rightarrow> ('w, unit) prog" where
  "free env ptr =
     bind (load Free) (\<lambda>f. bind (check_defined f ''free'') (\<lambda>_.
     bind (load Free) (\<lambda>f. bind (call_ptr env f [Ptr ptr]) (\<lambda>_. return ()))))"

definition strdup :: "'w env \<Rightarrow> addr \<Rightarrow> ('w, val) prog" where
  "strdup env s =
     bind (load Strdup) (\<lambda>f. bind (check_defined f ''strdup'') (\<lambda>_.
     bind (load Strdup) (\<lambda>f. call_ptr env f [Ptr s])))"

definition strndup :: "'w env \<Rightarrow> addr \<Rightarrow> nat \<Rightarrow> ('w, val) prog" where
  "strndup env s n =
     bind (load Strndup) (\<lambda>f. bind (check_defined f ''strndup'') (\<lambda>_.
     bind (load Strndup) (\<lambda>f. call_ptr env f [Ptr s, Size n])))"

definition realpath :: "'w env \<Rightarrow> addr \<Rightarrow> addr \<Rightarrow> ('w, val) prog" where
  "realpath env path resolved_path =
     bind (load Realpath) (\<lambda>f. bind (check_defined f ''realpath'') (\<lambda>_.
     bind (load Realpath) (\<lambda>f. call_ptr env f [Ptr path, Ptr resolved_path])))"

definition reallocf :: "'w env \<Rightarrow> addr \<Rightarrow> nat \<Rightarrow> ('w, val) prog" where
  "reallocf env ptr size' =
     bind (load Reallocf) (\<lambda>f. bind (check_defined f ''reallocf'') (\<lambda>_.
     bind (load Reallocf) (\<lambda>f. call_ptr env f [Ptr ptr, Size size'])))"

definition malloc_size :: "'w env \<Rightarrow> addr \<Rightarrow> ('w, val) prog" where
  "malloc_size env ptr =
     bind (load Malloc_size) (\<lambda>f. bind (check_defined f ''malloc_size'') (\<lambda>_.
     bind (load Malloc_size) (\<lambda>f. call_ptr env f [Ptr ptr])))"

definition malloc_usable_size :: "'w env \<Rightarrow> addr \<Rightarrow> ('w, val) prog" where
  "malloc_usable_size env ptr =
     bind (load Malloc_usable_size) (\<lambda>f. bind (check_defined f ''malloc_usable_size'') (\<lambda>_.
     bind (load Malloc_usable_size) (\<lambda>f. call_ptr env f [Ptr ptr])))"

definition malloc_good_size :: "'w env \<Rightarrow> nat \<Rightarrow> ('w, val) prog" where
  "malloc_good_size env size' =
     bind (load Malloc_good_size) (\<lambda>f. bind (check_defined f ''malloc_good_size'') (\<lambda>_.
     bind (load Malloc_good_size) (\<lambda>f. call_ptr env f [Size size'])))"

definition cfree :: "'w env \<Rightarrow> addr \<Rightarrow> ('w, unit) prog" where
  "cfree env ptr =
     bind (load Cfree) (\<lambda>f. bind (check_defined f ''cfree'') (\<lambda>_.
     bind (load Cfree) (\<lambda>f. bind (call_ptr env f [Ptr ptr]) (\<lambda>_. return ()))))"

definition valloc :: "'w env \<Rightarrow> nat \<Rightarrow> ('w, val) prog" where
  "valloc env size' =
     bind (load Valloc) (\<lambda>f. bind (check_defined f ''valloc'') (\<lambda>_.
     bind (load Valloc) (\<lambda>f. call_ptr env f [Size size'])))"

definition pvalloc :: "'w env \<Rightarrow> nat \<Rightarrow> ('w, val) prog" where
  "pvalloc env size' =
     bind (load Pvalloc) (\<lambda>f. bind (check_defined f ''pvalloc'') (\<lambda>_.
     bind (load Pvalloc) (\<lambda>f. call_ptr env f [Size size'])))"

definition reallocarray :: "'w env \<Rightarrow> addr \<Rightarrow> nat \<Rightarrow> nat \<Rightarrow> ('w, val) prog" where
  "reallocarray env ptr n size' =
     bind (load Reallocarray) (\<lambda>f. bind (check_defined f ''reallocarray'') (\<lambda>_.
     bind (load Reallocarray) (\<lambda>f. call_ptr env f [Ptr ptr, Size n, Size size'])))"

definition reallocarr :: "'w env \<Rightarrow> addr \<Rightarrow> nat \<Rightarrow> nat \<Rightarrow> ('w, val) prog" where
  "reallocarr env ptr n size' =
     bind (load Reallocarr) (\<lambda>f. bind (check_defined f ''reallocarr'') (\<lambda>_.
     bind (load Reallocarr) (\<lambda>f. call_ptr env f [Ptr ptr, Size n, Size size'])))"

definition memalign :: "'w env \<Rightarrow> nat \<Rightarrow> nat \<Rightarrow> ('w, val) prog" where
  "memalign env alignment size' =
     bind (load Memalign) (\<lambda>f. bind (check_defined f ''memalign'') (\<lambda>_.
     bind (load Memalign) (\<lambda>f. call_ptr env f [Size alignment, Size size'])))"

definition aligned_alloc :: "'w env \<Rightarrow> nat \<Rightarrow> nat \<Rightarrow> ('w, val) prog" where
  "aligned_alloc env alignment size' =
     bind (load Aligned_alloc) (\<lambda>f. bind (check_defined f ''aligned_alloc'') (\<lambda>_.
     bind (load Aligned_alloc) (\<lambda>f. call_ptr env f [Size alignment, Size size'])))"

definition posix_memalign :: "'w env \<Rightarrow> addr \<Rightarrow> nat \<Rightarrow> nat \<Rightarrow> ('w, val) prog" where
  "posix_memalign env memptr alignment size' =
     bind (load Posix_memalign) (\<lambda>f. bind (check_defined f ''posix_memalign'') (\<lambda>_.
     bind (load Posix_memalign) (\<lambda>f. call_ptr env f [Ptr memptr, Size alignment, Size size'])))"

definition underscore_posix_memalign :: "'w env \<Rightarrow> addr \<Rightarrow> nat \<Rightarrow> nat \<Rightarrow> ('w, val) prog" where
  "underscore_posix_memalign env memptr alignment size' =
     bind (load Underscore_posix_memalign) (\<lambda>f. bind (check_defined f ''_posix_memalign'') (\<lambda>_.
     bind (load Underscore_posix_memalign) (\<lambda>f. call_ptr env f [Ptr memptr, Size alignment, Size size'])))"

text \<open>One call of an exported function: which one, and with which arguments.\<close>

datatype invocation =
    Call_malloc nat
  | Call_calloc nat nat
  | Call_realloc addr nat
  | Call_free addr
  | Call_strdup addr
  | Call_strndup addr nat
  | Call_realpath addr addr
  | Call_reallocf addr nat
  | Call_malloc_size addr
  | Call_malloc_usable_size addr
  | Call_malloc_good_size nat
  | Call_cfree addr
  | Call_valloc nat
  | Call_pvalloc nat
  | Call_reallocarray addr nat nat
  | Call_reallocarr addr nat nat
  | Call_memalign nat nat
  | Call_aligned_alloc nat nat
  | Call_posix_memalign addr nat nat
  | Call_underscore_posix_memalign addr nat nat

fun entry_of :: "invocation \<Rightarrow> entry" where
  "entry_of (Call_malloc size') = Malloc"
| "entry_of (Call_calloc n size') = Calloc"
| "entry_of (Call_realloc ptr size') = Realloc"
| "entry_of (Call_free ptr) = Free"
| "entry_of (Call_strdup s) = Strdup"
| "entry_of (Call_strndup s n) = Strndup"
| "entry_of (Call_realpath path resolved_path) = Realpath"
| "entry_of (Call_reallocf ptr size') = Reallocf"
| "entry_of (Call_malloc_size ptr) = Malloc_size"
| "entry_of (Call_malloc_usable_size ptr) = Malloc_usable_size"
| "entry_of (Call_malloc_good_size size') = Malloc_good_size"
| "entry_of (Call_cfree ptr) = Cfree"
| "entry_of (Call_valloc size') = Valloc"
| "entry_of (Call_pvalloc size') = Pvalloc"
| "entry_of (Call_reallocarray ptr n size') = Reallocarray"
| "entry_of (Call_reallocarr ptr n size') = Reallocarr"
| "entry_of (Call_memalign alignment size') = Memalign"
| "entry_of (Call_aligned_alloc alignment size') = Aligned_alloc"
| "entry_of (Call_posix_memalign memptr alignment size') = Posix_memalign"
| "entry_of (Call_underscore_posix_memalign memptr alignment size') = Underscore_posix_memalign"

fun args_of :: "invocation \<Rightarrow> val list" where
  "args_of (Call_malloc size') = [Size size']"
| "args_of (Call_calloc n size') = [Size n, Size size']"
| "args_of (Call_realloc ptr size') = [Ptr ptr, Size size']"
| "args_of (Call_free ptr) = [Ptr ptr]"
| "args_of (Call_strdup s) = [Ptr s]"
| "args_of (Call_strndup s n) = [Ptr s, Size n]"
| "args_of (Call_realpath path resolved_path) = [Ptr path, Ptr resolved_path]"
| "args_of (Call_reallocf ptr size') = [Ptr ptr, Size size']"
| "args_of (Call_malloc_size ptr) = [Ptr ptr]"
| "args_of (Call_malloc_usable_size ptr) = [Ptr ptr]"
| "args_of (Call_malloc_good_size size') = [Size size']"
| "args_of (Call_cfree ptr) = [Ptr ptr]"
| "args_of (Call_valloc size') = [Size size']"
| "args_of (Call_pvalloc size') = [Size size']"
| "args_of (Call_reallocarray ptr n size') = [Ptr ptr, Size n, Size size']"
| "args_of (Call_reallocarr ptr n size') = [Ptr ptr, Size n, Size size']"
| "args_of (Call_memalign alignment size') = [Size alignment, Size size']"
| "args_of (Call_aligned_alloc alignment size') = [Size alignment, Size size']"
| "args_of (Call_posix_memalign memptr alignment size') = [Ptr memptr, Size alignment, Size size']"
| "args_of (Call_underscore_posix_memalign memptr alignment size') = [Ptr memptr, Size alignment, Size size']"

fun returns_void :: "entry \<Rightarrow> bool" where
  "returns_void Free = True"
| "returns_void Cfree = True"
| "returns_void _ = False"

fun invoke :: "'w env \<Rightarrow> invocation \<Rightarrow> ('w, val) prog" where
  "invoke env (Call_malloc size') = malloc env size'"
| "invoke env (Call_calloc n size') = calloc env n size'"
| "invoke env (Call_realloc ptr size') = realloc env ptr size'"
| "invoke env (Call_free ptr) = bind (free env ptr) (\<lambda>_. return Void)"
| "invoke env (Call_strdup s) = strdup env s"
| "invoke env (Call_strndup s n) = strndup env s n"
| "invoke env (Call_realpath path resolved_path) = realpath env path resolved_path"
| "invoke env (Call_reallocf ptr size') = reallocf env ptr size'"
| "invoke env (Call_malloc_size ptr) = malloc_size env ptr"
| "invoke env (Call_malloc_usable_size ptr) = malloc_usable_size env ptr"
| "invoke env (Call_malloc_good_size size') = malloc_good_size env size'"
| "invoke env (Call_cfree ptr) = bind (cfree env ptr) (\<lambda>_. return Void)"
| "invoke env (Call_valloc size') = valloc env size'"
| "invoke env (Call_pvalloc size') = pvalloc env size'"
| "invoke env (Call_reallocarray ptr n size') = reallocarray env ptr n size'"
| "invoke env (Call_reallocarr ptr n size') = reallocarr env ptr n size'"
| "invoke env (Call_memalign alignment size') = memalign env alignment size'"
| "invoke env (Call_aligned_alloc alignment size') = aligned_alloc env alignment size'"
| "invoke env (Call_posix_memalign memptr alignment size') = posix_memalign env memptr alignment size'"
| "invoke env (Call_underscore_posix_memalign memptr alignment size') = underscore_posix_memalign env memptr alignment size'"


section \<open>Notions used to state the properties\<close>

text \<open>The decision rule in the words of the specification: if the "next" address equals
  either the platform's own address or the alternative allocator's address, select the
  alternative allocator's address; otherwise select the "next" address unchanged.\<close>

definition decision_rule :: "addr \<Rightarrow> addr \<Rightarrow> addr \<Rightarrow> addr" where
  "decision_rule platform_addr alternative_addr next_addr =
     (if next_addr = platform_addr \<or> next_addr = alternative_addr
      then alternative_addr else next_addr)"

text \<open>The fields in the order in which \<open>init\<close> goes through them.\<close>

definition all_entries :: "entry list" where
  "all_entries =
     [Malloc, Calloc, Realloc, Free, Strdup, Strndup, Realpath, Reallocf, Malloc_size,
      Malloc_usable_size, Malloc_good_size, Cfree, Valloc, Pvalloc, Reallocarray,
      Reallocarr, Memalign, Aligned_alloc, Posix_memalign, Underscore_posix_memalign]"

text \<open>The three parts of \<open>init\<close>, over a list of fields: \<open>init\<close> is shown below to be
  their sequence over \<open>all_entries\<close>.\<close>

fun set_defaults :: "'w env \<Rightarrow> entry list \<Rightarrow> ('w, unit) prog" where
  "set_defaults env [] = return ()"
| "set_defaults env (e # es) =
     bind (dlsym env RTLD_NEXT (entry_name e)) (\<lambda>p. bind (store e p) (\<lambda>_.
     set_defaults env es))"

fun resolve_all :: "'w env \<Rightarrow> entry list \<Rightarrow> ('w, addr list) prog" where
  "resolve_all env [] = return []"
| "resolve_all env (e # es) =
     bind (resolve_func env (entry_name e)) (\<lambda>r. bind (resolve_all env es) (\<lambda>rs.
     return (r # rs)))"

fun store_all :: "(entry \<times> addr) list \<Rightarrow> ('w, unit) prog" where
  "store_all [] = return ()"
| "store_all ((e, r) # xs) = bind (store e r) (\<lambda>_. store_all xs)"

text \<open>The events of the three parts. A lookup is the five answers of the loader during one
  call of \<open>resolve_func\<close>: the two handles and the three addresses.\<close>

type_synonym lookup = "addr \<times> addr \<times> addr \<times> addr \<times> addr"

definition default_events :: "(entry \<Rightarrow> addr) \<Rightarrow> entry list \<Rightarrow> event list" where
  "default_events d es =
     concat (map (\<lambda>e. [EvDlsym RTLD_NEXT (entry_name e) (d e), EvStore e (d e)]) es)"

fun resolve_events :: "string \<Rightarrow> lookup \<Rightarrow> event list" where
  "resolve_events symbol (libc_so, libmimalloc_so, libc_sym, libmimalloc_sym, next_sym) =
     [EvDlopen ''libc.so.6'' [RTLD_NOW, RTLD_NOLOAD] libc_so,
      EvDlopen ''libmimalloc.so'' [RTLD_NOW] libmimalloc_so,
      EvDlsym (Lib libc_so) symbol libc_sym,
      EvDlsym (Lib libmimalloc_so) symbol libmimalloc_sym,
      EvDlsym RTLD_NEXT symbol next_sym]"

fun selected :: "lookup \<Rightarrow> addr" where
  "selected (libc_so, libmimalloc_so, libc_sym, libmimalloc_sym, next_sym) =
     decision_rule libc_sym libmimalloc_sym next_sym"

definition resolution_events :: "(entry \<Rightarrow> lookup) \<Rightarrow> entry list \<Rightarrow> event list" where
  "resolution_events k es = concat (map (\<lambda>e. resolve_events (entry_name e) (k e)) es)"

definition final_events :: "(entry \<Rightarrow> lookup) \<Rightarrow> entry list \<Rightarrow> event list" where
  "final_events k es = map (\<lambda>e. EvStore e (selected (k e))) es"

definition libc_failure :: "event list" where
  "libc_failure =
     [EvDlopen ''libc.so.6'' [RTLD_NOW, RTLD_NOLOAD] NULL,
      EvFprintf ''libc.so.6 not loaded\<newline>'',
      EvAbort]"

definition mimalloc_failure :: "event list" where
  "mimalloc_failure =
     [EvDlopen ''libmimalloc.so'' [RTLD_NOW] NULL,
      EvFprintf ''Failed to load libmimalloc.so\<newline>'',
      EvAbort]"

fun is_store :: "event \<Rightarrow> bool" where
  "is_store (EvStore e a) = True"
| "is_store _ = False"

text \<open>The calls the rest of the process makes after \<open>init\<close>, one after the other; the
  process is gone at the first one that aborts.\<close>

fun run :: "'w env \<Rightarrow> invocation list \<Rightarrow> ('w, val list) prog" where
  "run env [] = return []"
| "run env (c # cs) =
     bind (invoke env c) (\<lambda>v. bind (run env cs) (\<lambda>vs. return (v # vs)))"

section \<open>Notions used in the proofs\<close>

text \<open>A lookup is \<open>loaded\<close> when both handles are non-null, and \<open>answered\<close> when each of
  its five values is an answer the environment gives to the corresponding question in some
  state.\<close>

fun loaded :: "lookup \<Rightarrow> bool" where
  "loaded (libc_so, libmimalloc_so, libc_sym, libmimalloc_sym, next_sym) =
     (libc_so \<noteq> NULL \<and> libmimalloc_so \<noteq> NULL)"

fun answered :: "'w env \<Rightarrow> string \<Rightarrow> lookup \<Rightarrow> bool" where
  "answered env symbol (libc_so, libmimalloc_so, libc_sym, libmimalloc_sym, next_sym) =
     (\<exists>w1 w2 w3 w4 w5.
        fst (sys_dlopen env ''libc.so.6'' [RTLD_NOW, RTLD_NOLOAD] w1) = libc_so \<and>
        fst (sys_dlopen env ''libmimalloc.so'' [RTLD_NOW] w2) = libmimalloc_so \<and>
        fst (sys_dlsym env (Lib libc_so) symbol w3) = libc_sym \<and>
        fst (sys_dlsym env (Lib libmimalloc_so) symbol w4) = libmimalloc_sym \<and>
        fst (sys_dlsym env RTLD_NEXT symbol w5) = next_sym)"

text \<open>The last events of a call of \<open>resolve_func\<close> that aborts.\<close>

definition abort_tail :: "'w env \<Rightarrow> event list \<Rightarrow> bool" where
  "abort_tail env t \<longleftrightarrow>
     (\<exists>w. fst (sys_dlopen env ''libc.so.6'' [RTLD_NOW, RTLD_NOLOAD] w) = NULL) \<and>
       t = libc_failure \<or>
     (\<exists>libc_so. libc_so \<noteq> NULL \<and>
        (\<exists>w. fst (sys_dlopen env ''libc.so.6'' [RTLD_NOW, RTLD_NOLOAD] w) = libc_so) \<and>
        (\<exists>w. fst (sys_dlopen env ''libmimalloc.so'' [RTLD_NOW] w) = NULL) \<and>
        t = EvDlopen ''libc.so.6'' [RTLD_NOW, RTLD_NOLOAD] libc_so # mimalloc_failure)"

text \<open>The table after the assignments \<open>lut.e = f e\<close> for the fields of a list.\<close>

definition install :: "(entry \<Rightarrow> addr) \<Rightarrow> entry list \<Rightarrow> malloc_lut \<Rightarrow> malloc_lut" where
  "install f es l = fold (\<lambda>e. lut_set e (f e)) es l"

section \<open>Example environments\<close>

text \<open>A loader given by three symbol tables (the platform library, libmimalloc and the
  search order after the glue library) and the two handles \<open>dlopen\<close> answers with; its
  state counts the calls made to it. The function behind a pointer returns a pointer that
  depends on the address called and on that count.\<close>

definition sym_lookup :: "(string \<times> addr) list \<Rightarrow> string \<Rightarrow> addr" where
  "sym_lookup tbl symbol = (case map_of tbl symbol of None \<Rightarrow> NULL | Some a \<Rightarrow> a)"

definition example_env ::
  "addr \<Rightarrow> addr \<Rightarrow> (string \<times> addr) list \<Rightarrow> (string \<times> addr) list \<Rightarrow> (string \<times> addr) list \<Rightarrow> nat env" where
  "example_env libc_so libmimalloc_so libc_syms libmimalloc_syms next_syms =
     \<lparr> sys_dlopen = (\<lambda>filename flags w.
         (if filename = ''libc.so.6'' then libc_so
          else if filename = ''libmimalloc.so'' then libmimalloc_so
          else NULL, Suc w)),
       sys_dlsym = (\<lambda>handle symbol w.
         (case handle of
            RTLD_NEXT \<Rightarrow> sym_lookup next_syms symbol
          | Lib h \<Rightarrow>
              if h = libc_so then sym_lookup libc_syms symbol
              else if h = libmimalloc_so then sym_lookup libmimalloc_syms symbol
              else NULL, Suc w)),
       sys_call = (\<lambda>p args w. (Ptr (p + w), Suc w)) \<rparr>"

text \<open>A glibc without the BSD names, a libmimalloc without \<open>realpath\<close> and
  \<open>reallocarr\<close>.\<close>

definition glibc_syms :: "(string \<times> addr) list" where
  "glibc_syms =
     [(''malloc'', 1001), (''calloc'', 1002), (''realloc'', 1003), (''free'', 1004),
      (''strdup'', 1005), (''strndup'', 1006), (''realpath'', 1007),
      (''malloc_usable_size'', 1010), (''valloc'', 1013), (''pvalloc'', 1014),
      (''reallocarray'', 1015), (''memalign'', 1017), (''aligned_alloc'', 1018),
      (''posix_memalign'', 1019)]"

definition mimalloc_syms :: "(string \<times> addr) list" where
  "mimalloc_syms =
     [(''malloc'', 2001), (''calloc'', 2002), (''realloc'', 2003), (''free'', 2004),
      (''strdup'', 2005), (''strndup'', 2006),
      (''reallocf'', 2008), (''malloc_size'', 2009), (''malloc_usable_size'', 2010),
      (''malloc_good_size'', 2011), (''cfree'', 2012), (''valloc'', 2013),
      (''pvalloc'', 2014), (''reallocarray'', 2015), (''memalign'', 2017),
      (''aligned_alloc'', 2018), (''posix_memalign'', 2019), (''_posix_memalign'', 2020)]"

text \<open>The process when the constructor starts: the table as the static initialiser left
  it, nothing done yet.\<close>

definition initial_state :: "'w \<Rightarrow> 'w pstate" where
  "initial_state w = \<lparr> world = w, lut = lut_initial, trace = [] \<rparr>"

text \<open>Nothing interposed; a third library that defines \<open>malloc\<close> and \<open>free\<close>;
  libmimalloc.so missing; libc.so.6 not loaded.\<close>

definition plain_env :: "nat env" where
  "plain_env = example_env 1 2 glibc_syms mimalloc_syms glibc_syms"

definition interposed_env :: "nat env" where
  "interposed_env =
     example_env 1 2 glibc_syms mimalloc_syms ((''malloc'', 3001) # (''free'', 3004) # glibc_syms)"

definition no_mimalloc_env :: "nat env" where
  "no_mimalloc_env = example_env 1 NULL glibc_syms mimalloc_syms glibc_syms"

definition no_libc_env :: "nat env" where
  "no_libc_env = example_env NULL 2 glibc_syms mimalloc_syms glibc_syms"

section \<open>Sequencing\<close>

lemma return_bind [simp]: "bind (return x) f = f x"
  by (rule ext) (simp add: bind_def return_def)

lemma bind_return [simp]: "bind m return = m"
  by (rule ext) (simp add: bind_def return_def split: prod.splits result.splits)

lemma bind_assoc: "bind (bind m f) g = bind m (\<lambda>x. bind (f x) g)"
  by (rule ext) (simp add: bind_def split: prod.splits result.splits)

section \<open>The three parts of init\<close>

text \<open>\<open>init\<close>, as written, is the sequence of its three parts over \<open>all_entries\<close>.\<close>

lemma init_phases:
  "init env =
     bind (set_defaults env all_entries) (\<lambda>_.
     bind (resolve_all env all_entries) (\<lambda>rs.
     store_all (zip all_entries rs)))"
  by (simp add: init_def all_entries_def bind_assoc)

section \<open>Reading and writing the table\<close>

lemma lut_get_set: "lut_get e (lut_set e' a l) = (if e = e' then a else lut_get e l)"
  by (cases e; cases e'; simp)

lemma lut_get_install:
  "lut_get e (install f es l) = (if e \<in> set es then f e else lut_get e l)"
  unfolding install_def by (induction es arbitrary: l) (auto simp: lut_get_set)

section \<open>The runs of resolve_func and of the parts of init\<close>

text \<open>A call of \<open>resolve_func\<close> returns the selected address after its five questions to
  the loader, or aborts after a \<open>dlopen\<close> answered with \<open>NULL\<close>.\<close>

lemma resolve_func_cases:
  "(\<exists>k w'. loaded k \<and> answered env symbol k \<and>
       resolve_func env symbol s =
         (Ret (selected k), s\<lparr>world := w', trace := trace s @ resolve_events symbol k\<rparr>))
   \<or> (\<exists>t w'. abort_tail env t \<and>
       resolve_func env symbol s = (Aborted, s\<lparr>world := w', trace := trace s @ t\<rparr>))"
proof -
  obtain hl w1 where o1: "sys_dlopen env ''libc.so.6'' [RTLD_NOW, RTLD_NOLOAD] (world s) = (hl, w1)"
    by (cases "sys_dlopen env ''libc.so.6'' [RTLD_NOW, RTLD_NOLOAD] (world s)")
  obtain hm w2 where o2: "sys_dlopen env ''libmimalloc.so'' [RTLD_NOW] w1 = (hm, w2)"
    by (cases "sys_dlopen env ''libmimalloc.so'' [RTLD_NOW] w1")
  obtain l w3 where o3: "sys_dlsym env (Lib hl) symbol w2 = (l, w3)"
    by (cases "sys_dlsym env (Lib hl) symbol w2")
  obtain m w4 where o4: "sys_dlsym env (Lib hm) symbol w3 = (m, w4)"
    by (cases "sys_dlsym env (Lib hm) symbol w3")
  obtain n w5 where o5: "sys_dlsym env RTLD_NEXT symbol w4 = (n, w5)"
    by (cases "sys_dlsym env RTLD_NEXT symbol w4")
  show ?thesis
  proof (cases "hl = NULL")
    case True
    then have r: "resolve_func env symbol s =
         (Aborted, s\<lparr>world := w1, trace := trace s @ libc_failure\<rparr>)"
      using o1
      by (simp add: resolve_func_def bind_def dlopen_def fprintf_stderr_def abort_def
          emit_def libc_failure_def)
    have "fst (sys_dlopen env ''libc.so.6'' [RTLD_NOW, RTLD_NOLOAD] (world s)) = NULL"
      using o1 True by simp
    then have "abort_tail env libc_failure"
      unfolding abort_tail_def by (intro disjI1 conjI exI) simp_all
    with r show ?thesis
      by (intro disjI2 exI [of _ libc_failure] exI [of _ w1] conjI)
  next
    case hl: False
    show ?thesis
    proof (cases "hm = NULL")
      case True
      let ?t = "EvDlopen ''libc.so.6'' [RTLD_NOW, RTLD_NOLOAD] hl # mimalloc_failure"
      from True have r: "resolve_func env symbol s =
         (Aborted, s\<lparr>world := w2, trace := trace s @ ?t\<rparr>)"
        using o1 o2 hl
        by (simp add: resolve_func_def bind_def dlopen_def fprintf_stderr_def abort_def
            emit_def mimalloc_failure_def return_def)
      have "fst (sys_dlopen env ''libmimalloc.so'' [RTLD_NOW] w1) = NULL"
        using o2 True by simp
      moreover have "fst (sys_dlopen env ''libc.so.6'' [RTLD_NOW, RTLD_NOLOAD] (world s)) = hl"
        using o1 by simp
      ultimately have "abort_tail env ?t"
        unfolding abort_tail_def using hl by blast
      with r show ?thesis
        by (intro disjI2 exI [of _ ?t] exI [of _ w2] conjI)
    next
      case hm: False
      let ?k = "(hl, hm, l, m, n)"
      have r: "resolve_func env symbol s =
         (Ret (selected ?k), s\<lparr>world := w5, trace := trace s @ resolve_events symbol ?k\<rparr>)"
        using o1 o2 o3 o4 o5 hl hm
        by (simp add: resolve_func_def bind_def dlopen_def dlsym_def emit_def return_def
            decision_rule_def)
      have a: "answered env symbol ?k"
        using o1 o2 o3 o4 o5 by (simp, metis fst_conv)
      have "loaded ?k" using hl hm by simp
      with r a show ?thesis
        by (intro disjI1 exI [of _ ?k] exI [of _ w5] conjI)
    qed
  qed
qed

lemma install_cong: "(\<And>e. e \<in> set es \<Longrightarrow> f e = g e) \<Longrightarrow> install f es l = install g es l"
  unfolding install_def by (induction es arbitrary: l) simp_all

lemma default_events_cong:
  "(\<And>e. e \<in> set es \<Longrightarrow> f e = g e) \<Longrightarrow> default_events f es = default_events g es"
  unfolding default_events_def by (induction es) simp_all

lemma resolution_events_cong:
  "(\<And>e. e \<in> set es \<Longrightarrow> f e = g e) \<Longrightarrow> resolution_events f es = resolution_events g es"
  unfolding resolution_events_def by (induction es) simp_all

lemma set_defaults_run:
  assumes "distinct es"
  shows "\<exists>d w'. (\<forall>e \<in> set es. \<exists>w. d e = fst (sys_dlsym env RTLD_NEXT (entry_name e) w)) \<and>
     set_defaults env es s =
       (Ret (), s\<lparr>world := w', lut := install d es (lut s),
                  trace := trace s @ default_events d es\<rparr>)"
  using assms
proof (induction es arbitrary: s)
  case Nil
  have "set_defaults env [] s =
      (Ret (), s\<lparr>world := world s, lut := install (\<lambda>_. NULL) [] (lut s),
                 trace := trace s @ default_events (\<lambda>_. NULL) []\<rparr>)"
    by (simp add: return_def install_def default_events_def)
  then show ?case by (metis empty_iff list.set(1))
next
  case (Cons e es)
  obtain a w1 where o: "sys_dlsym env RTLD_NEXT (entry_name e) (world s) = (a, w1)"
    by (cases "sys_dlsym env RTLD_NEXT (entry_name e) (world s)")
  define s1 where "s1 = s\<lparr>world := w1, lut := lut_set e a (lut s),
    trace := trace s @ [EvDlsym RTLD_NEXT (entry_name e) a, EvStore e a]\<rparr>"
  have step: "set_defaults env (e # es) s = set_defaults env es s1"
    using o by (simp add: bind_def dlsym_def store_def emit_def s1_def)
  from Cons.prems have d: "distinct es" and ne: "e \<notin> set es" by simp_all
  from Cons.IH [OF d, of s1] obtain d w' where
    src: "\<forall>e \<in> set es. \<exists>w. d e = fst (sys_dlsym env RTLD_NEXT (entry_name e) w)" and
    run: "set_defaults env es s1 =
       (Ret (), s1\<lparr>world := w', lut := install d es (lut s1),
                  trace := trace s1 @ default_events d es\<rparr>)"
    by blast
  let ?d = "d(e := a)"
  have same: "\<And>x. x \<in> set es \<Longrightarrow> ?d x = d x" using ne by auto
  have i: "install ?d (e # es) (lut s) = install d es (lut s1)"
    using install_cong [of es ?d d, OF same] by (simp add: install_def s1_def)
  have t: "trace s @ default_events ?d (e # es) = trace s1 @ default_events d es"
    using default_events_cong [of es ?d d, OF same] by (simp add: default_events_def s1_def)
  have "set_defaults env (e # es) s =
       (Ret (), s\<lparr>world := w', lut := install ?d (e # es) (lut s),
                  trace := trace s @ default_events ?d (e # es)\<rparr>)"
    unfolding step run i t by (simp add: s1_def)
  moreover have "\<forall>x \<in> set (e # es). \<exists>w. ?d x = fst (sys_dlsym env RTLD_NEXT (entry_name x) w)"
    using src o ne by (auto intro: exI [of _ "world s"])
  ultimately show ?case by blast
qed

lemma store_all_run:
  "store_all (map (\<lambda>e. (e, f e)) es) s =
     (Ret (), s\<lparr>lut := install f es (lut s), trace := trace s @ map (\<lambda>e. EvStore e (f e)) es\<rparr>)"
  by (induction es arbitrary: s)
     (simp_all add: return_def install_def bind_def store_def emit_def)

lemma resolve_all_cases:
  assumes "distinct es"
  shows "(\<exists>k w'. (\<forall>e \<in> set es. loaded (k e) \<and> answered env (entry_name e) (k e)) \<and>
            resolve_all env es s =
              (Ret (map (\<lambda>e. selected (k e)) es),
               s\<lparr>world := w', trace := trace s @ resolution_events k es\<rparr>))
       \<or> (\<exists>k es1 e es2 t w'. es = es1 @ e # es2 \<and>
            (\<forall>e \<in> set es1. loaded (k e) \<and> answered env (entry_name e) (k e)) \<and>
            abort_tail env t \<and>
            resolve_all env es s =
              (Aborted, s\<lparr>world := w', trace := trace s @ resolution_events k es1 @ t\<rparr>))"
  using assms
proof (induction es arbitrary: s)
  case Nil
  have "resolve_all env [] s =
      (Ret (map (\<lambda>e. selected ((\<lambda>_. (0, 0, 0, 0, 0)) e)) []),
       s\<lparr>world := world s, trace := trace s @ resolution_events (\<lambda>_. (0, 0, 0, 0, 0)) []\<rparr>)"
    by (simp add: return_def resolution_events_def)
  then show ?case
    apply -
    apply (rule disjI1)
    apply (rule exI [of _ "\<lambda>_. (0, 0, 0, 0, 0)"])
    apply (rule exI [of _ "world s"])
    apply simp
    done
next
  case (Cons e es)
  from Cons.prems have d: "distinct es" and ne: "e \<notin> set es" by simp_all
  consider
    (ok) k0 w1 where "loaded k0" "answered env (entry_name e) k0"
      "resolve_func env (entry_name e) s =
         (Ret (selected k0),
          s\<lparr>world := w1, trace := trace s @ resolve_events (entry_name e) k0\<rparr>)"
  | (fail) t w1 where "abort_tail env t"
      "resolve_func env (entry_name e) s = (Aborted, s\<lparr>world := w1, trace := trace s @ t\<rparr>)"
    using resolve_func_cases [of env "entry_name e" s] by (elim disjE exE conjE) blast+
  then show ?case
  proof cases
    case fail
    have "resolve_all env (e # es) s =
        (Aborted, s\<lparr>world := w1,
           trace := trace s @ resolution_events (\<lambda>_. (0, 0, 0, 0, 0)) [] @ t\<rparr>)"
      using fail(2) by (simp add: bind_def resolution_events_def)
    then show ?thesis
      using fail(1)
      apply -
      apply (rule disjI2)
      apply (rule exI [of _ "\<lambda>_. (0, 0, 0, 0, 0)"])
      apply (rule exI [of _ "[]"])
      apply (rule exI [of _ e])
      apply (rule exI [of _ es])
      apply (rule exI [of _ t])
      apply (rule exI [of _ w1])
      apply simp
      done
  next
    case ok
    define s1 where
      "s1 = s\<lparr>world := w1, trace := trace s @ resolve_events (entry_name e) k0\<rparr>"
    have step: "resolve_all env (e # es) s =
        bind (resolve_all env es) (\<lambda>rs. return (selected k0 # rs)) s1"
      using ok(3) by (simp add: bind_def s1_def)
    from Cons.IH [OF d, of s1] consider
      (all) k w' where
        "\<forall>e \<in> set es. loaded (k e) \<and> answered env (entry_name e) (k e)"
        "resolve_all env es s1 =
           (Ret (map (\<lambda>e. selected (k e)) es),
            s1\<lparr>world := w', trace := trace s1 @ resolution_events k es\<rparr>)"
    | (stop) k es1 e' es2 t w' where "es = es1 @ e' # es2"
        "\<forall>e \<in> set es1. loaded (k e) \<and> answered env (entry_name e) (k e)"
        "abort_tail env t"
        "resolve_all env es s1 =
           (Aborted, s1\<lparr>world := w', trace := trace s1 @ resolution_events k es1 @ t\<rparr>)"
      by blast
    then show ?thesis
    proof cases
      case all
      let ?k = "k(e := k0)"
      have same: "\<And>x. x \<in> set es \<Longrightarrow> ?k x = k x" using ne by auto
      have t: "trace s @ resolution_events ?k (e # es) = trace s1 @ resolution_events k es"
        using resolution_events_cong [of es ?k k, OF same]
        by (simp add: resolution_events_def s1_def)
      have m: "map (\<lambda>e. selected (?k e)) (e # es) = selected k0 # map (\<lambda>e. selected (k e)) es"
        using ne by auto
      have "resolve_all env (e # es) s =
          (Ret (map (\<lambda>e. selected (?k e)) (e # es)),
           s\<lparr>world := w', trace := trace s @ resolution_events ?k (e # es)\<rparr>)"
        unfolding step m t using all(2) by (simp add: bind_def return_def s1_def)
      moreover have "\<forall>x \<in> set (e # es). loaded (?k x) \<and> answered env (entry_name x) (?k x)"
        using all(1) ok(1,2) by auto
      ultimately show ?thesis
        apply -
        apply (rule disjI1)
        apply (rule exI [of _ "k(e := k0)"])
        apply (rule exI [of _ w'])
        apply (rule conjI, assumption)
        apply assumption
        done
    next
      case stop
      let ?k = "k(e := k0)"
      from stop(1) ne have ne1: "e \<notin> set es1" by auto
      then have same: "\<And>x. x \<in> set es1 \<Longrightarrow> ?k x = k x" by auto
      have t: "trace s @ resolution_events ?k (e # es1) @ t =
          trace s1 @ resolution_events k es1 @ t"
        using resolution_events_cong [of es1 ?k k, OF same]
        by (simp add: resolution_events_def s1_def)
      have "resolve_all env (e # es) s =
          (Aborted, s\<lparr>world := w', trace := trace s @ resolution_events ?k (e # es1) @ t\<rparr>)"
        unfolding step t using stop(4) by (simp add: bind_def s1_def)
      moreover have "\<forall>x \<in> set (e # es1). loaded (?k x) \<and> answered env (entry_name x) (?k x)"
        using stop(2) ok(1,2) ne1 by auto
      moreover have "e # es = (e # es1) @ e' # es2" using stop(1) by simp
      ultimately show ?thesis
        using stop(3)
        apply -
        apply (rule disjI2)
        apply (rule exI [of _ "k(e := k0)"])
        apply (rule exI [of _ "e # es1"])
        apply (rule exI [of _ e'])
        apply (rule exI [of _ es2])
        apply (rule exI [of _ t])
        apply (rule exI [of _ w'])
        apply (intro conjI; assumption)
        done
    qed
  qed
qed

lemma distinct_all_entries: "distinct all_entries"
  by (simp add: all_entries_def)

lemma set_all_entries: "e \<in> set all_entries"
  by (cases e) (simp_all add: all_entries_def)

text \<open>The runs of \<open>init\<close>: the defaults, then either all twenty resolutions and the
  final assignments, or some complete resolutions and an abort with the table still holding
  the defaults.\<close>

lemma init_cases:
  "(\<exists>d k s'. init env s = (Ret (), s') \<and>
       (\<forall>e. loaded (k e) \<and> answered env (entry_name e) (k e)) \<and>
       trace s' = trace s @ default_events d all_entries @
                  resolution_events k all_entries @ final_events k all_entries \<and>
       (\<forall>e. lut_get e (lut s') = selected (k e)))
   \<or> (\<exists>d k es1 e es2 t s'. init env s = (Aborted, s') \<and>
       all_entries = es1 @ e # es2 \<and>
       (\<forall>e \<in> set es1. loaded (k e) \<and> answered env (entry_name e) (k e)) \<and>
       abort_tail env t \<and>
       trace s' = trace s @ default_events d all_entries @ resolution_events k es1 @ t \<and>
       (\<forall>e. lut_get e (lut s') = d e))"
proof -
  obtain d w1 where
    def: "set_defaults env all_entries s =
       (Ret (), s\<lparr>world := w1, lut := install d all_entries (lut s),
                  trace := trace s @ default_events d all_entries\<rparr>)"
    using set_defaults_run [OF distinct_all_entries, of env s] by blast
  define s1 where "s1 = s\<lparr>world := w1, lut := install d all_entries (lut s),
                  trace := trace s @ default_events d all_entries\<rparr>"
  have step: "init env s =
      bind (resolve_all env all_entries) (\<lambda>rs. store_all (zip all_entries rs)) s1"
    unfolding init_phases using def by (simp add: bind_def s1_def)
  have lut1: "\<And>e. lut_get e (lut s1) = d e"
    by (simp add: s1_def lut_get_install set_all_entries)
  from resolve_all_cases [OF distinct_all_entries, of env s1] consider
    (all) k w' where
      "\<forall>e \<in> set all_entries. loaded (k e) \<and> answered env (entry_name e) (k e)"
      "resolve_all env all_entries s1 =
         (Ret (map (\<lambda>e. selected (k e)) all_entries),
          s1\<lparr>world := w', trace := trace s1 @ resolution_events k all_entries\<rparr>)"
  | (stop) k es1 e' es2 t w' where "all_entries = es1 @ e' # es2"
      "\<forall>e \<in> set es1. loaded (k e) \<and> answered env (entry_name e) (k e)"
      "abort_tail env t"
      "resolve_all env all_entries s1 =
         (Aborted, s1\<lparr>world := w', trace := trace s1 @ resolution_events k es1 @ t\<rparr>)"
    by blast
  then show ?thesis
  proof cases
    case all
    define s2 where
      "s2 = s1\<lparr>world := w', trace := trace s1 @ resolution_events k all_entries\<rparr>"
    define s3 where
      "s3 = s2\<lparr>lut := install (\<lambda>e. selected (k e)) all_entries (lut s2),
               trace := trace s2 @ map (\<lambda>e. EvStore e (selected (k e))) all_entries\<rparr>"
    have z: "zip all_entries (map (\<lambda>e. selected (k e)) all_entries) =
        map (\<lambda>e. (e, selected (k e))) all_entries"
      by (simp add: zip_map2 zip_same_conv_map)
    have "init env s = store_all (map (\<lambda>e. (e, selected (k e))) all_entries) s2"
      unfolding step using all(2) by (simp add: bind_def s2_def z)
    then have r: "init env s = (Ret (), s3)"
      by (simp add: store_all_run s3_def)
    have "trace s3 = trace s @ default_events d all_entries @
                  resolution_events k all_entries @ final_events k all_entries"
      by (simp add: s3_def s2_def s1_def final_events_def)
    moreover have "\<forall>e. lut_get e (lut s3) = selected (k e)"
      by (simp add: s3_def lut_get_install set_all_entries)
    moreover have "\<forall>e. loaded (k e) \<and> answered env (entry_name e) (k e)"
      using all(1) set_all_entries by blast
    ultimately show ?thesis
      using r
      apply -
      apply (rule disjI1)
      apply (rule exI [of _ d])
      apply (rule exI [of _ k])
      apply (rule exI [of _ s3])
      apply (intro conjI; assumption)
      done
  next
    case stop
    define s2 where
      "s2 = s1\<lparr>world := w', trace := trace s1 @ resolution_events k es1 @ t\<rparr>"
    have r: "init env s = (Aborted, s2)"
      unfolding step using stop(4) by (simp add: bind_def s2_def)
    have "trace s2 = trace s @ default_events d all_entries @ resolution_events k es1 @ t"
      by (simp add: s2_def s1_def)
    moreover have "\<forall>e. lut_get e (lut s2) = d e"
      using lut1 by (simp add: s2_def)
    ultimately show ?thesis
      using r stop(1,2,3)
      apply -
      apply (rule disjI2)
      apply (rule exI [of _ d])
      apply (rule exI [of _ k])
      apply (rule exI [of _ es1])
      apply (rule exI [of _ e'])
      apply (rule exI [of _ es2])
      apply (rule exI [of _ t])
      apply (rule exI [of _ s2])
      apply (intro conjI; assumption)
      done
  qed
qed

section \<open>The runs of a wrapper\<close>

lemmas wrapper_defs =
  malloc_def calloc_def realloc_def free_def strdup_def strndup_def realpath_def
  reallocf_def malloc_size_def malloc_usable_size_def malloc_good_size_def cfree_def
  valloc_def pvalloc_def reallocarray_def reallocarr_def memalign_def aligned_alloc_def
  posix_memalign_def underscore_posix_memalign_def

lemma invoke_unresolved:
  assumes "lut_get (entry_of c) (lut s) = NULL"
  shows "invoke env c s =
     (Aborted, s\<lparr>trace := trace s @
        [EvFprintf (entry_name (entry_of c) @ ''() is not defined\<newline>''), EvAbort]\<rparr>)"
  using assms
  by (cases c)
     (simp_all add: wrapper_defs bind_def load_def check_defined_def fprintf_stderr_def
        abort_def emit_def)

lemma invoke_resolved:
  assumes "lut_get (entry_of c) (lut s) \<noteq> NULL"
    and "sys_call env (lut_get (entry_of c) (lut s)) (args_of c) (world s) = (v, w')"
  shows "invoke env c s =
     (Ret (if returns_void (entry_of c) then Void else v),
      s\<lparr>world := w', trace := trace s @ [EvCall (lut_get (entry_of c) (lut s)) (args_of c)]\<rparr>)"
  using assms
  by (cases c)
     (simp_all add: wrapper_defs bind_def load_def check_defined_def return_def
        call_ptr_def emit_def)

lemma invoke_lut: "lut (snd (invoke env c s)) = lut s"
proof (cases "lut_get (entry_of c) (lut s) = NULL")
  case True
  then show ?thesis by (simp add: invoke_unresolved)
next
  case False
  obtain v w' where "sys_call env (lut_get (entry_of c) (lut s)) (args_of c) (world s) = (v, w')"
    by (cases "sys_call env (lut_get (entry_of c) (lut s)) (args_of c) (world s)")
  with False show ?thesis by (simp add: invoke_resolved)
qed

lemma invoke_aborts_iff:
  "fst (invoke env c s) = Aborted \<longleftrightarrow> lut_get (entry_of c) (lut s) = NULL"
proof (cases "lut_get (entry_of c) (lut s) = NULL")
  case True
  then show ?thesis by (simp add: invoke_unresolved)
next
  case False
  obtain v w' where "sys_call env (lut_get (entry_of c) (lut s)) (args_of c) (world s) = (v, w')"
    by (cases "sys_call env (lut_get (entry_of c) (lut s)) (args_of c) (world s)")
  with False show ?thesis by (simp add: invoke_resolved)
qed

lemma run_aborts_iff:
  "fst (run env cs s) = Aborted \<longleftrightarrow> (\<exists>c \<in> set cs. lut_get (entry_of c) (lut s) = NULL)"
proof (induction cs arbitrary: s)
  case Nil
  show ?case by (simp add: return_def)
next
  case (Cons c cs)
  show ?case
  proof (cases "invoke env c s")
    case (Pair r s1)
    have l: "lut s1 = lut s" using invoke_lut [of env c s] Pair by simp
    show ?thesis
    proof (cases r)
      case Aborted
      with Pair invoke_aborts_iff [of env c s] show ?thesis
        by (simp add: bind_def)
    next
      case (Ret v)
      with Pair invoke_aborts_iff [of env c s]
      have n: "lut_get (entry_of c) (lut s) \<noteq> NULL" by auto
      have "fst (run env (c # cs) s) = Aborted \<longleftrightarrow> fst (run env cs s1) = Aborted"
        using Pair Ret
        by (cases "run env cs s1") (simp add: bind_def return_def split: result.splits)
      with Cons.IH [of s1] l n show ?thesis by simp
    qed
  qed
qed

section \<open>Facts about the events\<close>

lemma answered_loads:
  assumes "answered env symbol k" and "loaded k"
  shows "\<exists>w. fst (sys_dlopen env ''libc.so.6'' [RTLD_NOW, RTLD_NOLOAD] w) \<noteq> NULL"
    and "\<exists>w. fst (sys_dlopen env ''libmimalloc.so'' [RTLD_NOW] w) \<noteq> NULL"
  using assms by (cases k; auto)+

lemma all_entries_nonempty_split:
  assumes "all_entries = es1 @ e # es2" and "es1 \<noteq> []"
  shows "Malloc \<in> set es1"
  using assms by (cases es1) (auto simp: all_entries_def)

lemma dlopen_notin_default_events: "EvDlopen f fl a \<notin> set (default_events d es)"
  by (induction es) (simp_all add: default_events_def)

lemma dlopen_notin_final_events: "EvDlopen f fl a \<notin> set (final_events k es)"
  by (auto simp: final_events_def)

lemma failed_load_notin_resolution_events:
  assumes "\<forall>e \<in> set es. loaded (k e)"
  shows "EvDlopen ''libmimalloc.so'' [RTLD_NOW] NULL \<notin> set (resolution_events k es)"
  using assms
proof (induction es)
  case Nil
  show ?case by (simp add: resolution_events_def)
next
  case (Cons e es)
  obtain hl hm a b c where k: "k e = (hl, hm, a, b, c)" by (cases "k e")
  with Cons.prems have "hm \<noteq> NULL" by simp
  with Cons k show ?case by (simp add: resolution_events_def)
qed

lemma no_store_in_resolution_events:
  "ev \<in> set (resolution_events k es) \<Longrightarrow> \<not> is_store ev"
proof (induction es)
  case Nil
  then show ?case by (simp add: resolution_events_def)
next
  case (Cons e es)
  obtain hl hm a b c where "k e = (hl, hm, a, b, c)" by (cases "k e")
  with Cons show ?case by (auto simp: resolution_events_def)
qed

section \<open>The example environments, evaluated\<close>

lemmas example_defs = example_env_def glibc_syms_def mimalloc_syms_def sym_lookup_def
  initial_state_def plain_env_def interposed_env_def no_mimalloc_env_def no_libc_env_def

lemmas step_defs = init_def bind_def return_def dlopen_def dlsym_def store_def emit_def
  fprintf_stderr_def abort_def resolve_func_def

lemma interposed_init:
  "(case init interposed_env (initial_state 0) of (r, s') \<Rightarrow>
      r = Ret () \<and> world s' = 120 \<and> fn_malloc (lut s') = 3001 \<and> fn_calloc (lut s') = 2002)"
  by (simp add: step_defs example_defs lut_initial_def)

lemma no_mimalloc_load_event:
  "EvDlopen ''libmimalloc.so'' [RTLD_NOW] NULL
     \<in> set (trace (snd (init no_mimalloc_env (initial_state 0))))"
  by (simp add: step_defs example_defs lut_initial_def)


section \<open>The properties\<close>

subsection \<open>The decision rule\<close>

text \<open>
  Claim C1. For every symbol name, when both libraries are loaded, \<open>resolve_func\<close> returns
  the value of the decision rule on the three addresses the loader gave it: the address
  from libmimalloc.so if the \<open>RTLD_NEXT\<close> address equals the address from libc.so.6 or the
  one from libmimalloc.so, and the \<open>RTLD_NEXT\<close> address otherwise. The result depends on
  these three addresses only. The call leaves the table alone and asks the loader its five
  questions in the order of the source.
\<close>

theorem resolve_func_decision_rule:
  assumes "sys_dlopen env ''libc.so.6'' [RTLD_NOW, RTLD_NOLOAD] (world s) = (libc_so, w1)"
    and "libc_so \<noteq> NULL"
    and "sys_dlopen env ''libmimalloc.so'' [RTLD_NOW] w1 = (libmimalloc_so, w2)"
    and "libmimalloc_so \<noteq> NULL"
    and "sys_dlsym env (Lib libc_so) symbol w2 = (libc_sym, w3)"
    and "sys_dlsym env (Lib libmimalloc_so) symbol w3 = (libmimalloc_sym, w4)"
    and "sys_dlsym env RTLD_NEXT symbol w4 = (next_sym, w5)"
  shows "resolve_func env symbol s =
     (Ret (decision_rule libc_sym libmimalloc_sym next_sym),
      s\<lparr>world := w5, trace := trace s @
         resolve_events symbol (libc_so, libmimalloc_so, libc_sym, libmimalloc_sym, next_sym)\<rparr>)"
  using assms
  by (simp add: resolve_func_def bind_def dlopen_def dlsym_def emit_def return_def
      decision_rule_def)

theorem resolve_func_decision_rule_witness:
  "fst (resolve_func plain_env ''malloc'' (initial_state 0)) = Ret 2001 \<and>
   fst (resolve_func interposed_env ''malloc'' (initial_state 0)) = Ret 3001"
  using
    resolve_func_decision_rule [where env = plain_env and s = "initial_state 0"
      and symbol = "''malloc''" and libc_so = 1 and ?w1.0 = 1 and libmimalloc_so = 2
      and ?w2.0 = 2 and libc_sym = 1001 and ?w3.0 = 3 and libmimalloc_sym = 2001
      and ?w4.0 = 4 and next_sym = 1001 and ?w5.0 = 5]
    resolve_func_decision_rule [where env = interposed_env and s = "initial_state 0"
      and symbol = "''malloc''" and libc_so = 1 and ?w1.0 = 1 and libmimalloc_so = 2
      and ?w2.0 = 2 and libc_sym = 1001 and ?w3.0 = 3 and libmimalloc_sym = 2001
      and ?w4.0 = 4 and next_sym = 3001 and ?w5.0 = 5]
  by (simp add: example_defs decision_rule_def)

subsection \<open>The wrappers\<close>

text \<open>
  Claim C2. Each of the twenty wrappers, called while its table entry is \<open>NULL\<close>, writes
  the line \<open>name() is not defined\<close> with its own name to \<open>stderr\<close> and aborts. Nothing
  else happens: no indirect call is made and the rest of the process is untouched.
\<close>

theorem wrapper_aborts_on_unresolved_entry:
  assumes "lut_get (entry_of c) (lut s) = NULL"
  shows "invoke env c s =
     (Aborted, s\<lparr>trace := trace s @
        [EvFprintf (entry_name (entry_of c) @ ''() is not defined\<newline>''), EvAbort]\<rparr>)"
  using assms by (rule invoke_unresolved)

theorem wrapper_aborts_on_unresolved_entry_witness:
  "invoke plain_env (Call_malloc 16) (initial_state 0) =
     (Aborted, \<lparr>world = 0, lut = lut_initial,
                trace = [EvFprintf ''malloc() is not defined\<newline>'', EvAbort]\<rparr>)"
  using wrapper_aborts_on_unresolved_entry [of "Call_malloc 16" "initial_state 0" plain_env]
  by (simp add: initial_state_def lut_initial_def)

text \<open>
  Claim C3. Each of the twenty wrappers, called while its table entry is not \<open>NULL\<close>,
  makes one indirect call, to the address in the entry and with exactly its own arguments,
  and returns what that call returns; the state of the process afterwards is the one the
  callee left. \<open>free\<close> and \<open>cfree\<close> have no value to return.
\<close>

theorem wrapper_forwards_to_resolved_entry:
  assumes "lut_get (entry_of c) (lut s) \<noteq> NULL"
    and "sys_call env (lut_get (entry_of c) (lut s)) (args_of c) (world s) = (v, w')"
  shows "invoke env c s =
     (Ret (if returns_void (entry_of c) then Void else v),
      s\<lparr>world := w', trace := trace s @ [EvCall (lut_get (entry_of c) (lut s)) (args_of c)]\<rparr>)"
  using assms by (rule invoke_resolved)

theorem wrapper_forwards_to_resolved_entry_witness:
  "invoke plain_env (Call_calloc 4 8) \<lparr>world = 7, lut = lut_initial\<lparr>fn_calloc := 2002\<rparr>, trace = []\<rparr> =
     (Ret (Ptr 2009),
      \<lparr>world = 8, lut = lut_initial\<lparr>fn_calloc := 2002\<rparr>,
       trace = [EvCall 2002 [Size 4, Size 8]]\<rparr>)"
  using wrapper_forwards_to_resolved_entry [of "Call_calloc 4 8"
      "\<lparr>world = 7, lut = lut_initial\<lparr>fn_calloc := 2002\<rparr>, trace = []\<rparr>" plain_env "Ptr 2009" 8]
  by (simp add: example_defs)

text \<open>
  Claim C10. No wrapper writes the table: after any call of an exported function, and after
  any sequence of such calls, the table is what it was before.
\<close>

theorem wrappers_never_write_the_table:
  "lut (snd (invoke env c s)) = lut s \<and> lut (snd (run env cs s)) = lut s"
proof
  show "lut (snd (invoke env c s)) = lut s" by (rule invoke_lut)
  show "lut (snd (run env cs s)) = lut s"
  proof (induction cs arbitrary: s)
    case Nil
    show ?case by (simp add: return_def)
  next
    case (Cons c cs)
    obtain r s1 where i: "invoke env c s = (r, s1)" by (cases "invoke env c s")
    then have l: "lut s1 = lut s" using invoke_lut [of env c s] by simp
    obtain r2 s2 where j: "run env cs s1 = (r2, s2)" by (cases "run env cs s1")
    then have "lut s2 = lut s1" using Cons.IH [of s1] by simp
    with i j l show ?case
      by (cases r; cases r2) (simp_all add: bind_def return_def)
  qed
qed

theorem wrappers_never_write_the_table_witness:
  "lut (snd (invoke plain_env (Call_free 77) (initial_state 0))) = lut_initial \<and>
   lut (snd (run plain_env [Call_malloc 8, Call_free 77] (initial_state 0))) = lut_initial"
  using wrappers_never_write_the_table [of plain_env "Call_free 77" "initial_state 0"
      "[Call_malloc 8, Call_free 77]"]
  by (simp add: initial_state_def)

subsection \<open>The order of events in init\<close>

text \<open>
  Claim C4. Every run of \<open>init\<close> starts with the twenty temporary defaults: for each
  field, in the order of the source, the \<open>RTLD_NEXT\<close> lookup of its symbol and the
  assignment of the address found. Only then come the calls of \<open>resolve_func\<close>, whose
  events contain no assignment to the table. The final assignments follow if and only if all
  twenty calls have returned, and they install the selected addresses; if a call aborts,
  the run ends there and the table still holds the defaults.
\<close>

theorem init_ordering:
  "\<exists>d k es t.
     trace (snd (init env s)) =
       trace s @ default_events d all_entries @ resolution_events k es @ t \<and>
     (\<forall>ev \<in> set (resolution_events k es). \<not> is_store ev) \<and>
     (if fst (init env s) = Ret ()
      then es = all_entries \<and> t = final_events k all_entries \<and>
           (\<forall>e. lut_get e (lut (snd (init env s))) = selected (k e))
      else (\<exists>e es2. all_entries = es @ e # es2) \<and>
           (t = libc_failure \<or>
            (\<exists>libc_so. t = EvDlopen ''libc.so.6'' [RTLD_NOW, RTLD_NOLOAD] libc_so #
                             mimalloc_failure)) \<and>
           (\<forall>e. lut_get e (lut (snd (init env s))) = d e))"
  using init_cases [of env s]
proof (elim disjE exE conjE)
  fix d k s'
  assume "init env s = (Ret (), s')"
    and "trace s' = trace s @ default_events d all_entries @
           resolution_events k all_entries @ final_events k all_entries"
    and "\<forall>e. lut_get e (lut s') = selected (k e)"
  then show ?thesis
    by (intro exI [of _ d] exI [of _ k] exI [of _ all_entries]
        exI [of _ "final_events k all_entries"])
       (simp add: no_store_in_resolution_events)
next
  fix d k es1 e es2 t s'
  assume r: "init env s = (Aborted, s')"
    and sp: "all_entries = es1 @ e # es2"
    and tl: "abort_tail env t"
    and tr: "trace s' = trace s @ default_events d all_entries @ resolution_events k es1 @ t"
    and l: "\<forall>e. lut_get e (lut s') = d e"
  from tl have "t = libc_failure \<or>
      (\<exists>libc_so. t = EvDlopen ''libc.so.6'' [RTLD_NOW, RTLD_NOLOAD] libc_so # mimalloc_failure)"
    unfolding abort_tail_def by blast
  moreover from sp have "\<exists>e es2. all_entries = es1 @ e # es2" by blast
  ultimately show ?thesis
    using r tr l
    by (intro exI [of _ d] exI [of _ k] exI [of _ es1] exI [of _ t])
       (simp add: no_store_in_resolution_events)
qed

theorem init_ordering_witness:
  "fst (init interposed_env (initial_state 0)) = Ret () \<and>
   (\<exists>d k. trace (snd (init interposed_env (initial_state 0))) =
      default_events d all_entries @ resolution_events k all_entries @
      final_events k all_entries)"
proof -
  have r: "fst (init interposed_env (initial_state 0)) = Ret ()"
    using interposed_init by (simp split: prod.splits)
  have t: "trace (initial_state (0::nat)) = []" by (simp add: initial_state_def)
  from init_ordering [of interposed_env "initial_state 0"] r t show ?thesis
    by auto
qed

text \<open>
  Claim C9. When \<open>init\<close> returns, the address in each field of the table is the address
  libmimalloc.so gave for the symbol or the \<open>RTLD_NEXT\<close> address, as looked up in the call
  of \<open>resolve_func\<close> for that symbol; the address libc.so.6 gave is in the table only where
  it is equal to one of these two.
\<close>

theorem installed_address_provenance:
  assumes "init env s = (Ret (), s')"
  shows "\<exists>d k.
     trace s' = trace s @ default_events d all_entries @
                resolution_events k all_entries @ final_events k all_entries \<and>
     (\<forall>e. case k e of (libc_so, libmimalloc_so, libc_sym, libmimalloc_sym, next_sym) \<Rightarrow>
        (lut_get e (lut s') = libmimalloc_sym \<or> lut_get e (lut s') = next_sym) \<and>
        (lut_get e (lut s') = libc_sym \<longrightarrow>
           libc_sym = libmimalloc_sym \<or> libc_sym = next_sym))"
  using init_cases [of env s]
proof (elim disjE exE conjE)
  fix d k s''
  assume "init env s = (Ret (), s'')"
    and tr: "trace s'' = trace s @ default_events d all_entries @
           resolution_events k all_entries @ final_events k all_entries"
    and l: "\<forall>e. lut_get e (lut s'') = selected (k e)"
  with assms have [simp]: "s'' = s'" by simp
  have "\<forall>e. case k e of (libc_so, libmimalloc_so, libc_sym, libmimalloc_sym, next_sym) \<Rightarrow>
        (lut_get e (lut s') = libmimalloc_sym \<or> lut_get e (lut s') = next_sym) \<and>
        (lut_get e (lut s') = libc_sym \<longrightarrow>
           libc_sym = libmimalloc_sym \<or> libc_sym = next_sym)"
  proof
    fix e
    obtain hl hm a b c where k: "k e = (hl, hm, a, b, c)" by (cases "k e")
    from l have "lut_get e (lut s') = decision_rule a b c" by (simp add: k)
    then show "case k e of (libc_so, libmimalloc_so, libc_sym, libmimalloc_sym, next_sym) \<Rightarrow>
        (lut_get e (lut s') = libmimalloc_sym \<or> lut_get e (lut s') = next_sym) \<and>
        (lut_get e (lut s') = libc_sym \<longrightarrow>
           libc_sym = libmimalloc_sym \<or> libc_sym = next_sym)"
      by (simp add: k decision_rule_def)
  qed
  with tr show ?thesis
    by (intro exI [of _ d] exI [of _ k]) simp
next
  fix s''
  assume "init env s = (Aborted, s'')"
  with assms show ?thesis by simp
qed

theorem installed_address_provenance_witness:
  "\<exists>s'. init interposed_env (initial_state 0) = (Ret (), s') \<and>
     fn_malloc (lut s') = 3001 \<and> fn_calloc (lut s') = 2002 \<and>
     (\<exists>d k. trace s' = default_events d all_entries @
                resolution_events k all_entries @ final_events k all_entries \<and>
        (\<forall>e. case k e of (libc_so, libmimalloc_so, libc_sym, libmimalloc_sym, next_sym) \<Rightarrow>
          (lut_get e (lut s') = libmimalloc_sym \<or> lut_get e (lut s') = next_sym) \<and>
          (lut_get e (lut s') = libc_sym \<longrightarrow>
             libc_sym = libmimalloc_sym \<or> libc_sym = next_sym)))"
proof -
  obtain s' where r: "init interposed_env (initial_state 0) = (Ret (), s')"
    and l: "fn_malloc (lut s') = 3001" "fn_calloc (lut s') = 2002"
    using interposed_init by (cases "init interposed_env (initial_state 0)") simp
  have t: "trace (initial_state (0::nat)) = []" by (simp add: initial_state_def)
  from installed_address_provenance [OF r] r l t show ?thesis
    by (intro exI [of _ s']) simp
qed

subsection \<open>Missing symbols\<close>

text \<open>
  Claim C5. With both libraries loaded, a symbol for which every lookup fails does not stop
  \<open>init\<close>: it returns, with \<open>NULL\<close> in the field of that symbol. Afterwards a sequence
  of calls of exported functions aborts exactly if it contains a call whose table entry is
  \<open>NULL\<close>: calls of resolved symbols never abort, a call of the missing symbol does.
\<close>

theorem absent_symbol_aborts_only_when_called:
  assumes "\<forall>w. fst (sys_dlopen env ''libc.so.6'' [RTLD_NOW, RTLD_NOLOAD] w) \<noteq> NULL"
    and "\<forall>w. fst (sys_dlopen env ''libmimalloc.so'' [RTLD_NOW] w) \<noteq> NULL"
    and "\<forall>h w. fst (sys_dlsym env h (entry_name e) w) = NULL"
  shows "\<exists>s'. init env s = (Ret (), s') \<and> lut_get e (lut s') = NULL \<and>
     (\<forall>cs. fst (run env cs s') = Aborted \<longleftrightarrow>
        (\<exists>c \<in> set cs. lut_get (entry_of c) (lut s') = NULL))"
  using init_cases [of env s]
proof (elim disjE exE conjE)
  fix d k s'
  assume r: "init env s = (Ret (), s')"
    and ok: "\<forall>e. loaded (k e) \<and> answered env (entry_name e) (k e)"
    and l: "\<forall>e. lut_get e (lut s') = selected (k e)"
  obtain hl hm a b c where k: "k e = (hl, hm, a, b, c)" by (cases "k e")
  from ok have "answered env (entry_name e) (k e)" by blast
  with assms(3) have "a = NULL" "b = NULL" "c = NULL" by (auto simp: k)
  with l have "lut_get e (lut s') = NULL" by (simp add: k decision_rule_def)
  with r show ?thesis by (intro exI [of _ s']) (simp add: run_aborts_iff)
next
  fix t
  assume "abort_tail env t"
  with assms(1,2) have False unfolding abort_tail_def by blast
  then show ?thesis ..
qed

theorem absent_symbol_aborts_only_when_called_witness:
  "\<exists>s'. init plain_env (initial_state 0) = (Ret (), s') \<and>
     lut_get Reallocarr (lut s') = NULL \<and>
     (\<forall>cs. fst (run plain_env cs s') = Aborted \<longleftrightarrow>
        (\<exists>c \<in> set cs. lut_get (entry_of c) (lut s') = NULL))"
  using absent_symbol_aborts_only_when_called [of plain_env Reallocarr "initial_state 0"]
  by (simp add: example_defs split: dl_handle.splits)



subsection \<open>Missing libraries\<close>

text \<open>
  Claim C7. If the loader reports libc.so.6 as not loaded, \<open>init\<close> aborts in its first
  call of \<open>resolve_func\<close>: after the twenty temporary defaults the only events are the
  \<open>dlopen\<close> answered with \<open>NULL\<close>, the line \<open>libc.so.6 not loaded\<close> on \<open>stderr\<close> and
  \<open>abort()\<close>. No lookup of \<open>resolve_func\<close> is made, libmimalloc.so is not opened, and the
  table keeps the defaults. (\<open>abort()\<close> ends the process by \<open>SIGABRT\<close>, which its parent
  sees as an unsuccessful termination.)
\<close>

theorem init_aborts_when_libc_not_loaded:
  assumes "\<forall>w. fst (sys_dlopen env ''libc.so.6'' [RTLD_NOW, RTLD_NOLOAD] w) = NULL"
  shows "\<exists>d. fst (init env s) = Aborted \<and>
       trace (snd (init env s)) = trace s @ default_events d all_entries @ libc_failure \<and>
       (\<forall>e. lut_get e (lut (snd (init env s))) = d e)"
  using init_cases [of env s]
proof (elim disjE exE conjE)
  fix d k s'
  assume "\<forall>e. loaded (k e) \<and> answered env (entry_name e) (k e)"
  then have "loaded (k Malloc)" "answered env (entry_name Malloc) (k Malloc)" by blast+
  from answered_loads(1) [OF this(2,1)] assms show ?thesis by simp
next
  fix d k es1 e es2 t s'
  assume r: "init env s = (Aborted, s')"
    and sp: "all_entries = es1 @ e # es2"
    and ok: "\<forall>e \<in> set es1. loaded (k e) \<and> answered env (entry_name e) (k e)"
    and tl: "abort_tail env t"
    and tr: "trace s' = trace s @ default_events d all_entries @ resolution_events k es1 @ t"
    and l: "\<forall>e. lut_get e (lut s') = d e"
  have "es1 = []"
  proof (rule ccontr)
    assume "es1 \<noteq> []"
    from all_entries_nonempty_split [OF sp this] ok
    have "loaded (k Malloc)" "answered env (entry_name Malloc) (k Malloc)" by blast+
    from answered_loads(1) [OF this(2,1)] assms show False by simp
  qed
  moreover from tl assms have "t = libc_failure"
    unfolding abort_tail_def by auto
  ultimately show ?thesis
    using r tr l by (intro exI [of _ d]) (simp add: resolution_events_def)
qed

theorem init_aborts_when_libc_not_loaded_witness:
  "\<exists>d. fst (init no_libc_env (initial_state 0)) = Aborted \<and>
     trace (snd (init no_libc_env (initial_state 0))) =
       default_events d all_entries @
       [EvDlopen ''libc.so.6'' [RTLD_NOW, RTLD_NOLOAD] NULL,
        EvFprintf ''libc.so.6 not loaded\<newline>'', EvAbort] \<and>
     (\<forall>e. lut_get e (lut (snd (init no_libc_env (initial_state 0)))) = d e)"
  using init_aborts_when_libc_not_loaded [of no_libc_env "initial_state 0"]
  by (simp add: example_defs libc_failure_def)

text \<open>
  Claim C8. If loading libmimalloc.so fails, that is, if among the events of \<open>init\<close> there
  is a \<open>dlopen\<close> of libmimalloc.so answered with \<open>NULL\<close>, then \<open>init\<close> aborts, and its
  last three events are that \<open>dlopen\<close>, the line \<open>Failed to load libmimalloc.so\<close> on
  \<open>stderr\<close> and \<open>abort()\<close>.
\<close>

theorem init_aborts_when_mimalloc_fails_to_load:
  assumes "trace (snd (init env s)) = trace s @ t"
    and "EvDlopen ''libmimalloc.so'' [RTLD_NOW] NULL \<in> set t"
  shows "fst (init env s) = Aborted \<and> (\<exists>pre. t = pre @ mimalloc_failure)"
  using init_cases [of env s]
proof (elim disjE exE conjE)
  fix d k s'
  assume r: "init env s = (Ret (), s')"
    and ok: "\<forall>e. loaded (k e) \<and> answered env (entry_name e) (k e)"
    and tr: "trace s' = trace s @ default_events d all_entries @
           resolution_events k all_entries @ final_events k all_entries"
  from assms(1) r tr have "t = default_events d all_entries @
           resolution_events k all_entries @ final_events k all_entries" by simp
  moreover from ok have "\<forall>e \<in> set all_entries. loaded (k e)" by simp
  ultimately show ?thesis
    using assms(2) failed_load_notin_resolution_events [of all_entries k]
    by (simp add: dlopen_notin_default_events dlopen_notin_final_events)
next
  fix d k es1 e es2 t' s'
  assume r: "init env s = (Aborted, s')"
    and ok: "\<forall>e \<in> set es1. loaded (k e) \<and> answered env (entry_name e) (k e)"
    and tl: "abort_tail env t'"
    and tr: "trace s' = trace s @ default_events d all_entries @ resolution_events k es1 @ t'"
  from assms(1) r tr have t: "t = default_events d all_entries @ resolution_events k es1 @ t'"
    by simp
  from ok have "\<forall>e \<in> set es1. loaded (k e)" by simp
  with assms(2) t failed_load_notin_resolution_events [of es1 k]
  have in_tail: "EvDlopen ''libmimalloc.so'' [RTLD_NOW] NULL \<in> set t'"
    by (simp add: dlopen_notin_default_events)
  from tl consider "t' = libc_failure"
    | libc_so where "t' = EvDlopen ''libc.so.6'' [RTLD_NOW, RTLD_NOLOAD] libc_so # mimalloc_failure"
    unfolding abort_tail_def by blast
  then show ?thesis
  proof cases
    case 1
    with in_tail show ?thesis by (simp add: libc_failure_def)
  next
    case 2
    have "t = (default_events d all_entries @ resolution_events k es1 @
        [EvDlopen ''libc.so.6'' [RTLD_NOW, RTLD_NOLOAD] libc_so]) @ mimalloc_failure"
      using t 2 by simp
    with r show ?thesis by (metis fst_conv)
  qed
qed

theorem init_aborts_when_mimalloc_fails_to_load_witness:
  "fst (init no_mimalloc_env (initial_state 0)) = Aborted \<and>
   (\<exists>pre. trace (snd (init no_mimalloc_env (initial_state 0))) =
      pre @ [EvDlopen ''libmimalloc.so'' [RTLD_NOW] NULL,
             EvFprintf ''Failed to load libmimalloc.so\<newline>'', EvAbort])"
  using init_aborts_when_mimalloc_fails_to_load [of no_mimalloc_env "initial_state 0"
      "trace (snd (init no_mimalloc_env (initial_state 0)))"] no_mimalloc_load_event
  by (simp add: initial_state_def mimalloc_failure_def)

end
